theory Spec2Isabelle
  imports Main "HOL-Library.Word"
begin

section \<open>Machine model\<close>

text \<open>
  Pointers are compared for identity only. \<open>NULL\<close> is the null pointer,
  \<open>Static_jump_buffer\<close> is the address of the file-level
  \<^verbatim>\<open>static jmp_buf jump_buffer\<close> of support.c, and \<open>Addr n\<close> is the address of
  any other object (a stack slot of an activation, a jmp_buf of the caller's, a function).
\<close>

datatype ptr = NULL | Static_jump_buffer | Addr nat

type_synonym uint32_t = "32 word"
type_synonym c_int = "32 word"

text \<open>
  \<^verbatim>\<open>struct jmp_buf_impl { void *func_invocation_id; uint32_t label;
       struct arg { void *env; int val; } arg; };\<close>
\<close>

record arg =
  arg_env :: ptr
  arg_val :: c_int

record jmp_buf_impl =
  func_invocation_id :: ptr
  label :: uint32_t
  arg :: arg

text \<open>Calls that leave the C code: what the bridge layer and a checkpoint callback see.\<close>

datatype event =
    Checkpoint_call ptr ptr int
  | Diag_append ptr string
  | Issue_warning string
  | Issue_error string
  | Output_write ptr string int

text \<open>
  The memory holding jmp_buf objects, the statics of support.c, and the trace of the
  calls made to external code (oldest first).
\<close>

record machine =
  mem :: "ptr \<Rightarrow> jmp_buf_impl"
  format_buf :: string
  fprintf_buf :: string
  tectonic_checkpoint_fn :: ptr
  tectonic_checkpoint_userdata :: ptr
  trace :: "event list"

text \<open>
  How a call ends: it returns a value, it throws a wasm exception (tag and payload; the
  payload of a C_LONGJMP exception is \<^verbatim>\<open>&jb->arg\<close>, represented by the address of
  \<open>jb\<close>), or it executes \<^verbatim>\<open>__builtin_trap()\<close>.
\<close>

datatype 'a outcome = Returns 'a machine | Throws nat ptr machine | Traps

definition C_LONGJMP :: nat where
  "C_LONGJMP = 1"

section \<open>csrc/wasm/sjlj\_rt.c\<close>

definition wasm_setjmp :: "ptr \<Rightarrow> uint32_t \<Rightarrow> ptr \<Rightarrow> machine \<Rightarrow> unit outcome" where
  "wasm_setjmp env lbl invocation_id s =
     (if lbl = 0 then Traps
      else if invocation_id = NULL then Traps
      else Returns ()
        (s\<lparr>mem := (mem s)(env := (mem s env)\<lparr>func_invocation_id := invocation_id, label := lbl\<rparr>)\<rparr>))"

definition wasm_setjmp_test :: "ptr \<Rightarrow> ptr \<Rightarrow> machine \<Rightarrow> uint32_t outcome" where
  "wasm_setjmp_test env invocation_id s =
     (if label (mem s env) = 0 then Traps
      else if invocation_id = NULL then Traps
      else if func_invocation_id (mem s env) = invocation_id then Returns (label (mem s env)) s
      else Returns 0 s)"

text \<open>
  \<^verbatim>\<open>__wasm_longjmp\<close> is declared void; it ends in the throw, so the type of the value
  it would return is left open.
\<close>

definition wasm_longjmp :: "ptr \<Rightarrow> c_int \<Rightarrow> machine \<Rightarrow> 'a outcome" where
  "wasm_longjmp env val s =
     (let val' = (if val = 0 then 1 else val) in
      Throws C_LONGJMP env
        (s\<lparr>mem := (mem s)(env := (mem s env)\<lparr>arg := \<lparr>arg_env = env, arg_val = val'\<rparr>\<rparr>)\<rparr>))"

text \<open>
  The catch handlers, as the header comment of sjlj\_rt.c describes the code the compiler
  generates after each setjmp call site: a live activation that catches a C_LONGJMP
  exception calls \<^verbatim>\<open>__wasm_setjmp_test(env, &invocation_id)\<close> with the \<open>env\<close> read from
  the payload; a nonzero result is the label to dispatch to, with the payload's \<open>val\<close> as
  the value setjmp returns; on zero the exception is rethrown to the caller. The list
  holds the invocation ids of the live activations that have a setjmp call site,
  innermost first. An exception no activation claims leaves the program.
\<close>

datatype resumption = Resumed ptr uint32_t c_int machine | Uncaught machine | Trapped

fun unwind :: "ptr list \<Rightarrow> ptr \<Rightarrow> machine \<Rightarrow> resumption" where
  "unwind [] payload s = Uncaught s"
| "unwind (invocation_id # callers) payload s =
     (case wasm_setjmp_test (arg_env (arg (mem s payload))) invocation_id s of
        Traps \<Rightarrow> Trapped
      | Throws t p s' \<Rightarrow> Trapped
      | Returns l s' \<Rightarrow>
          if l \<noteq> 0 then Resumed invocation_id l (arg_val (arg (mem s' payload))) s'
          else unwind callers payload s')"

section \<open>The C library's formatted output\<close>

text \<open>
  A C string ends at its first NUL byte.
\<close>

definition NUL :: char where
  "NUL = CHR 0x00"

definition c_str :: "string \<Rightarrow> string" where
  "c_str buf = takeWhile (\<lambda>c. c \<noteq> NUL) buf"

text \<open>
  The variable arguments of a printf-style call: signed and unsigned integers, strings,
  pointers and doubles (as their 64 bits).
\<close>

datatype printf_arg =
    Int_arg int
  | Nat_arg nat
  | Str_arg string
  | Ptr_arg ptr
  | Double_arg "64 word"

text \<open>
  \<^verbatim>\<open>vsnprintf\<close> belongs to the C library, not to this repository. What a format and its
  arguments expand to is therefore a parameter of the model, the formatter: it answers
  with the complete text, or with an error (an encoding error, a result too long for
  \<^verbatim>\<open>int\<close>) together with the bytes produced before it.
\<close>

datatype formatted = Complete string | Format_error string

type_synonym formatter = "string \<Rightarrow> printf_arg list \<Rightarrow> formatted"

definition written :: "formatted \<Rightarrow> string" where
  "written r = (case r of Complete text \<Rightarrow> text | Format_error text \<Rightarrow> text)"

definition returned :: "formatted \<Rightarrow> int" where
  "returned r = (case r of Complete text \<Rightarrow> int (length text) | Format_error text \<Rightarrow> - 1)"

text \<open>
  \<^verbatim>\<open>vsnprintf(buf, n, format, ap)\<close>, as the C standard has it: output beyond the
  \<open>n - 1\<close>st byte is discarded, and a NUL is written behind the bytes actually written
  into the array; the bytes of \<open>buf\<close> behind that NUL stay as they were. The value
  returned is the length of the complete text, or negative on an error: the NUL-terminated
  output has been written completely exactly when the value is nonnegative and less than
  \<open>n\<close>.
\<close>

definition vsnprintf ::
  "formatter \<Rightarrow> string \<Rightarrow> nat \<Rightarrow> string \<Rightarrow> printf_arg list \<Rightarrow> string \<times> int" where
  "vsnprintf libc buf n format ap =
     (let r = libc format ap; k = min (length (written r)) (n - 1) in
      (if n = 0 then buf else take k (written r) @ [NUL] @ drop (k + 1) buf, returned r))"

section \<open>pkg/tectonic/src/bridge\_core/support.c\<close>

definition BUF_SIZE :: nat where
  "BUF_SIZE = 1024"

text \<open>
  \<^verbatim>\<open>longjmp\<close> of \<^verbatim>\<open><setjmp.h>\<close>: by the header comment of sjlj\_rt.c the compiler turns
  \<^verbatim>\<open>longjmp(env, val)\<close> into \<^verbatim>\<open>__wasm_longjmp(env, val)\<close>.
\<close>

definition longjmp :: "ptr \<Rightarrow> c_int \<Rightarrow> machine \<Rightarrow> 'a outcome" where
  "longjmp env val s = wasm_longjmp env val s"

definition tt_abort :: "formatter \<Rightarrow> string \<Rightarrow> printf_arg list \<Rightarrow> machine \<Rightarrow> 'a outcome" where
  "tt_abort libc format ap s =
     longjmp Static_jump_buffer 1
       (s\<lparr>format_buf := fst (vsnprintf libc (format_buf s) BUF_SIZE format ap)\<rparr>)"

text \<open>
  The allocators: \<open>new_mem\<close> is what \<^verbatim>\<open>calloc\<close>, \<^verbatim>\<open>malloc\<close> or \<^verbatim>\<open>realloc\<close> returned for
  the call. The contents of the allocated memory are not part of the machine.
\<close>

definition xcalloc :: "formatter \<Rightarrow> ptr \<Rightarrow> nat \<Rightarrow> nat \<Rightarrow> machine \<Rightarrow> ptr outcome" where
  "xcalloc libc new_mem nelem elsize s =
     (if new_mem = NULL then
        tt_abort libc ''xcalloc request for %lu elements of size %lu failed''
          [Nat_arg nelem, Nat_arg elsize] s
      else Returns new_mem s)"

definition xmalloc :: "formatter \<Rightarrow> ptr \<Rightarrow> nat \<Rightarrow> machine \<Rightarrow> ptr outcome" where
  "xmalloc libc new_mem sz s =
     (if new_mem = NULL then tt_abort libc ''xmalloc request for %lu bytes failed'' [Nat_arg sz] s
      else Returns new_mem s)"

definition xrealloc :: "formatter \<Rightarrow> ptr \<Rightarrow> ptr \<Rightarrow> nat \<Rightarrow> machine \<Rightarrow> ptr outcome" where
  "xrealloc libc new_mem old_ptr sz s =
     (if old_ptr = NULL then xmalloc libc new_mem sz s
      else if new_mem = NULL then tt_abort libc ''xrealloc() to %lu bytes failed'' [Nat_arg sz] s
      else Returns new_mem s)"

definition xstrdup :: "formatter \<Rightarrow> ptr \<Rightarrow> string \<Rightarrow> machine \<Rightarrow> ptr outcome" where
  "xstrdup libc new_mem str s = xmalloc libc new_mem (length (c_str str) + 1) s"

definition ttstub_diag_vprintf :: "formatter \<Rightarrow> ptr \<Rightarrow> string \<Rightarrow> printf_arg list \<Rightarrow> machine \<Rightarrow> unit outcome" where
  "ttstub_diag_vprintf libc diag format ap s =
     (let s1 = s\<lparr>format_buf := fst (vsnprintf libc (format_buf s) BUF_SIZE format ap)\<rparr> in
      Returns () (s1\<lparr>trace := trace s1 @ [Diag_append diag (c_str (format_buf s1))]\<rparr>))"

definition ttstub_diag_printf :: "formatter \<Rightarrow> ptr \<Rightarrow> string \<Rightarrow> printf_arg list \<Rightarrow> machine \<Rightarrow> unit outcome" where
  "ttstub_diag_printf libc diag format ap s = ttstub_diag_vprintf libc diag format ap s"

text \<open>
  The checkpoint callback is code outside this file; the call through the function
  pointer is recorded in the trace.
\<close>

definition ttbc_set_checkpoint_callback :: "ptr \<Rightarrow> ptr \<Rightarrow> machine \<Rightarrow> unit outcome" where
  "ttbc_set_checkpoint_callback fn userdata s =
     Returns () (s\<lparr>tectonic_checkpoint_fn := fn, tectonic_checkpoint_userdata := userdata\<rparr>)"

definition ttbc_fire_checkpoint :: "int \<Rightarrow> machine \<Rightarrow> unit outcome" where
  "ttbc_fire_checkpoint checkpoint_id s =
     (if tectonic_checkpoint_fn s \<noteq> NULL then
        Returns () (s\<lparr>trace := trace s @
          [Checkpoint_call (tectonic_checkpoint_fn s) (tectonic_checkpoint_userdata s) checkpoint_id]\<rparr>)
      else Returns () s)"

text \<open>
  \<^verbatim>\<open>_ttbc_get_error_message\<close> returns the address of \<open>format_buf\<close>: the caller reads the
  bytes of the buffer, as a C string.
\<close>

definition ttbc_get_error_message :: "machine \<Rightarrow> string outcome" where
  "ttbc_get_error_message s = Returns (format_buf s) s"

definition ttbc_global_engine_enter :: "machine \<Rightarrow> ptr outcome" where
  "ttbc_global_engine_enter s = Returns Static_jump_buffer s"

definition ttbc_global_engine_exit :: "machine \<Rightarrow> unit outcome" where
  "ttbc_global_engine_exit s = Returns () s"

definition ttstub_issue_warning :: "formatter \<Rightarrow> string \<Rightarrow> printf_arg list \<Rightarrow> machine \<Rightarrow> unit outcome" where
  "ttstub_issue_warning libc format ap s =
     (let s1 = s\<lparr>format_buf := fst (vsnprintf libc (format_buf s) BUF_SIZE format ap)\<rparr> in
      Returns () (s1\<lparr>trace := trace s1 @ [Issue_warning (c_str (format_buf s1))]\<rparr>))"

definition ttstub_issue_error :: "formatter \<Rightarrow> string \<Rightarrow> printf_arg list \<Rightarrow> machine \<Rightarrow> unit outcome" where
  "ttstub_issue_error libc format ap s =
     (let s1 = s\<lparr>format_buf := fst (vsnprintf libc (format_buf s) BUF_SIZE format ap)\<rparr> in
      Returns () (s1\<lparr>trace := trace s1 @ [Issue_error (c_str (format_buf s1))]\<rparr>))"

definition ttstub_fprintf :: "formatter \<Rightarrow> ptr \<Rightarrow> string \<Rightarrow> printf_arg list \<Rightarrow> machine \<Rightarrow> int outcome" where
  "ttstub_fprintf libc handle format ap s =
     (let (buf, len0) = vsnprintf libc (fprintf_buf s) BUF_SIZE format ap;
          (buf1, len1) = (if len0 \<ge> int BUF_SIZE
                          then (buf[BUF_SIZE - 1 := NUL], int BUF_SIZE - 1) else (buf, len0));
          s1 = s\<lparr>fprintf_buf := buf1\<rparr>
      in if len1 \<ge> 0
         then Returns len1 (s1\<lparr>trace := trace s1 @ [Output_write handle (take (nat len1) buf1) len1]\<rparr>)
         else Returns len1 s1)"

text \<open>
  The wrappers over the input calls of the bridge layer: \<open>ti\<close>, \<open>(rv, internal_error)\<close>
  and \<open>rc\<close> are what \<^verbatim>\<open>ttbc_input_get_mtime\<close>, \<^verbatim>\<open>ttbc_input_seek\<close> and
  \<^verbatim>\<open>ttbc_input_close\<close> gave for the call.
\<close>

definition ttstub_input_get_mtime :: "int \<Rightarrow> ptr \<Rightarrow> machine \<Rightarrow> int outcome" where
  "ttstub_input_get_mtime ti handle s = Returns ti s"

definition ttstub_input_seek :: "nat \<times> int \<Rightarrow> ptr \<Rightarrow> int \<Rightarrow> int \<Rightarrow> machine \<Rightarrow> nat outcome" where
  "ttstub_input_seek answer handle offset whence s =
     (let (rv, internal_error) = answer in
      if internal_error \<noteq> 0 then longjmp Static_jump_buffer 1 s else Returns rv s)"

definition ttstub_input_close :: "int \<Rightarrow> ptr \<Rightarrow> machine \<Rightarrow> int outcome" where
  "ttstub_input_close rc handle s =
     (if rc \<noteq> 0 then longjmp Static_jump_buffer 1 s else Returns 0 s)"

text \<open>The statics as their initialisers leave them, in zeroed memory.\<close>

definition init_machine :: machine where
  "init_machine =
     \<lparr>mem = (\<lambda>p. \<lparr>func_invocation_id = NULL, label = 0, arg = \<lparr>arg_env = NULL, arg_val = 0\<rparr>\<rparr>),
      format_buf = replicate BUF_SIZE NUL,
      fprintf_buf = replicate BUF_SIZE NUL,
      tectonic_checkpoint_fn = NULL,
      tectonic_checkpoint_userdata = NULL,
      trace = []\<rparr>"

text \<open>Both character buffers have their declared size.\<close>

definition buffers_ok :: "machine \<Rightarrow> bool" where
  "buffers_ok s = (length (format_buf s) = BUF_SIZE \<and> length (fprintf_buf s) = BUF_SIZE)"

section \<open>Protected regions\<close>

text \<open>
  The code of a protected region, as the sequence of calls it makes into support.c. Each
  call carries its arguments, and what the C library or the bridge answered where the
  function asks them.
\<close>

datatype op =
    Xcalloc ptr nat nat
  | Xmalloc ptr nat
  | Xrealloc ptr ptr nat
  | Xstrdup ptr string
  | Diag_vprintf ptr string "printf_arg list"
  | Diag_printf ptr string "printf_arg list"
  | Set_checkpoint_callback ptr ptr
  | Fire_checkpoint int
  | Abort string "printf_arg list"
  | Get_error_message
  | Global_engine_enter
  | Global_engine_exit
  | Warning string "printf_arg list"
  | Error string "printf_arg list"
  | Fprintf ptr string "printf_arg list"
  | Input_get_mtime int ptr
  | Input_seek "nat \<times> int" ptr int int
  | Input_close int ptr

definition discard :: "'a outcome \<Rightarrow> unit outcome" where
  "discard r = (case r of Returns v s \<Rightarrow> Returns () s | Throws t p s \<Rightarrow> Throws t p s | Traps \<Rightarrow> Traps)"

fun exec :: "formatter \<Rightarrow> op \<Rightarrow> machine \<Rightarrow> unit outcome" where
  "exec libc (Xcalloc new_mem nelem elsize) s = discard (xcalloc libc new_mem nelem elsize s)"
| "exec libc (Xmalloc new_mem sz) s = discard (xmalloc libc new_mem sz s)"
| "exec libc (Xrealloc new_mem old_ptr sz) s = discard (xrealloc libc new_mem old_ptr sz s)"
| "exec libc (Xstrdup new_mem str) s = discard (xstrdup libc new_mem str s)"
| "exec libc (Diag_vprintf diag format ap) s = ttstub_diag_vprintf libc diag format ap s"
| "exec libc (Diag_printf diag format ap) s = ttstub_diag_printf libc diag format ap s"
| "exec libc (Set_checkpoint_callback fn userdata) s = ttbc_set_checkpoint_callback fn userdata s"
| "exec libc (Fire_checkpoint checkpoint_id) s = ttbc_fire_checkpoint checkpoint_id s"
| "exec libc (Abort format ap) s = tt_abort libc format ap s"
| "exec libc Get_error_message s = discard (ttbc_get_error_message s)"
| "exec libc Global_engine_enter s = discard (ttbc_global_engine_enter s)"
| "exec libc Global_engine_exit s = ttbc_global_engine_exit s"
| "exec libc (Warning format ap) s = ttstub_issue_warning libc format ap s"
| "exec libc (Error format ap) s = ttstub_issue_error libc format ap s"
| "exec libc (Fprintf handle format ap) s = discard (ttstub_fprintf libc handle format ap s)"
| "exec libc (Input_get_mtime ti handle) s = discard (ttstub_input_get_mtime ti handle s)"
| "exec libc (Input_seek answer handle offset whence) s =
     discard (ttstub_input_seek answer handle offset whence s)"
| "exec libc (Input_close rc handle) s = discard (ttstub_input_close rc handle s)"

text \<open>Statements run in order; a throw or a trap ends the run of the frame.\<close>

fun run_region :: "formatter \<Rightarrow> op list \<Rightarrow> machine \<Rightarrow> unit outcome" where
  "run_region libc [] s = Returns () s"
| "run_region libc (x # xs) s =
     (case exec libc x s of
        Returns u s' \<Rightarrow> run_region libc xs s'
      | Throws t p s' \<Rightarrow> Throws t p s'
      | Traps \<Rightarrow> Traps)"

text \<open>
  The call \<^verbatim>\<open>setjmp(*ttbc_global_engine_enter())\<close> of the usage pattern documented in
  tectonic\_bridge\_core.h, on its first return. By the header comment of sjlj\_rt.c the
  compiler turns \<^verbatim>\<open>setjmp(env)\<close> into \<^verbatim>\<open>__wasm_setjmp(env, label, &invocation_id)\<close>.
\<close>

definition enter_region :: "uint32_t \<Rightarrow> ptr \<Rightarrow> machine \<Rightarrow> unit outcome" where
  "enter_region lbl invocation_id s =
     (case ttbc_global_engine_enter s of
        Returns env s1 \<Rightarrow> wasm_setjmp env lbl invocation_id s1
      | Throws t p s1 \<Rightarrow> Throws t p s1
      | Traps \<Rightarrow> Traps)"

text \<open>The calls that format into \<open>format_buf\<close> whenever they are made.\<close>

fun formats :: "op \<Rightarrow> bool" where
  "formats (Diag_vprintf diag format ap) = True"
| "formats (Diag_printf diag format ap) = True"
| "formats (Abort format ap) = True"
| "formats (Warning format ap) = True"
| "formats (Error format ap) = True"
| "formats x = False"

text \<open>
  The calls that reach \<^verbatim>\<open>_tt_abort\<close>: Abort itself, and an allocator whose allocation
  failed.
\<close>

fun aborts :: "op \<Rightarrow> bool" where
  "aborts (Abort format ap) = True"
| "aborts (Xcalloc new_mem nelem elsize) = (new_mem = NULL)"
| "aborts (Xmalloc new_mem sz) = (new_mem = NULL)"
| "aborts (Xrealloc new_mem old_ptr sz) = (new_mem = NULL)"
| "aborts (Xstrdup new_mem str) = (new_mem = NULL)"
| "aborts x = False"

text \<open>
  The input wrappers on the path where they call \<^verbatim>\<open>longjmp(jump_buffer, 1)\<close>
  themselves.
\<close>

fun jumps_directly :: "op \<Rightarrow> bool" where
  "jumps_directly (Input_seek answer handle offset whence) = (snd answer \<noteq> 0)"
| "jumps_directly (Input_close rc handle) = (rc \<noteq> 0)"
| "jumps_directly x = False"

section \<open>A formatter for concrete calls\<close>

text \<open>
  To evaluate a concrete call, the C library's answer is computed for formats made of
  ordinary characters and the directives \<^verbatim>\<open>%%\<close>, \<^verbatim>\<open>%s\<close>, and \<^verbatim>\<open>%d\<close>, \<^verbatim>\<open>%i\<close>, \<^verbatim>\<open>%u\<close>
  with or without the length modifiers \<^verbatim>\<open>l\<close> and \<^verbatim>\<open>z\<close>, each with an argument of its
  kind: \<open>plain_text\<close> gives the text the C standard prescribes for them, and \<open>None\<close>
  for every other format. \<open>plain_libc rest\<close> is a formatter that agrees with it
  wherever it answers and is \<open>rest\<close> elsewhere.
\<close>

definition digit :: "nat \<Rightarrow> char" where
  "digit d = ''0123456789'' ! d"

fun dec :: "nat \<Rightarrow> string" where
  "dec n = (if n < 10 then [digit n] else dec (n div 10) @ [digit (n mod 10)])"

declare dec.simps [simp del]

definition dec_int :: "int \<Rightarrow> string" where
  "dec_int i = (if i < 0 then CHR ''-'' # dec (nat (- i)) else dec (nat i))"

datatype scan = Plain | Directive | Modified

definition integer_directive ::
  "char \<Rightarrow> printf_arg list \<Rightarrow> (string \<times> printf_arg list) option" where
  "integer_directive c ap =
     (if c = CHR ''d'' \<or> c = CHR ''i'' then
        (case ap of Int_arg i # ap' \<Rightarrow> Some (dec_int i, ap') | _ \<Rightarrow> None)
      else if c = CHR ''u'' then
        (case ap of Nat_arg n # ap' \<Rightarrow> Some (dec n, ap') | _ \<Rightarrow> None)
      else None)"

fun plain_text :: "scan \<Rightarrow> string \<Rightarrow> printf_arg list \<Rightarrow> string option" where
  "plain_text Plain [] ap = Some []"
| "plain_text Directive [] ap = None"
| "plain_text Modified [] ap = None"
| "plain_text Plain (c # f) ap =
     (if c = NUL then Some []
      else if c = CHR ''%'' then plain_text Directive f ap
      else map_option ((#) c) (plain_text Plain f ap))"
| "plain_text Directive (c # f) ap =
     (if c = CHR ''%'' then map_option ((#) c) (plain_text Plain f ap)
      else if c = CHR ''l'' \<or> c = CHR ''z'' then plain_text Modified f ap
      else if c = CHR ''s'' then
        (case ap of Str_arg str # ap' \<Rightarrow> map_option ((@) (c_str str)) (plain_text Plain f ap')
                  | _ \<Rightarrow> None)
      else (case integer_directive c ap of
              Some (digits, ap') \<Rightarrow> map_option ((@) digits) (plain_text Plain f ap')
            | None \<Rightarrow> None))"
| "plain_text Modified (c # f) ap =
     (case integer_directive c ap of
        Some (digits, ap') \<Rightarrow> map_option ((@) digits) (plain_text Plain f ap')
      | None \<Rightarrow> None)"

definition plain_libc :: "formatter \<Rightarrow> formatter" where
  "plain_libc rest format ap =
     (case plain_text Plain format ap of Some text \<Rightarrow> Complete text | None \<Rightarrow> rest format ap)"

section \<open>Mark, Test and Transfer\<close>

subsection \<open>Where a thrown C\_LONGJMP exception lands\<close>

lemma unwind_marked:
  assumes "label (mem s (arg_env (arg (mem s p)))) \<noteq> 0" and "NULL \<notin> set frames"
  shows "unwind frames p s =
     (if func_invocation_id (mem s (arg_env (arg (mem s p)))) \<in> set frames
      then Resumed (func_invocation_id (mem s (arg_env (arg (mem s p)))))
             (label (mem s (arg_env (arg (mem s p))))) (arg_val (arg (mem s p))) s
      else Uncaught s)"
  using assms by (induction frames) (auto simp add: wasm_setjmp_test_def)

lemma unwind_unmarked:
  "label (mem s (arg_env (arg (mem s p)))) = 0 \<Longrightarrow>
   unwind frames p s = (if frames = [] then Uncaught s else Trapped)"
  by (cases frames) (auto simp add: wasm_setjmp_test_def)

lemma unwind_Resumed:
  "unwind frames p s = Resumed t l x s' \<Longrightarrow>
   s' = s \<and> t \<in> set frames \<and> t \<noteq> NULL \<and> l \<noteq> 0 \<and>
   t = func_invocation_id (mem s (arg_env (arg (mem s p)))) \<and>
   l = label (mem s (arg_env (arg (mem s p)))) \<and> x = arg_val (arg (mem s p))"
  by (induction frames) (auto simp add: wasm_setjmp_test_def split: if_splits)

subsection \<open>Mark followed by Test\<close>

text \<open>
  C1. After Mark(env, L, T) with L nonzero and T non-null, Test(env, T') returns L when
  T' is T and 0 when T' is another non-null token.
\<close>

theorem mark_then_test:
  assumes "L \<noteq> 0" and "T \<noteq> NULL" and "T' \<noteq> NULL"
  shows "\<exists>s'. wasm_setjmp env L T s = Returns () s' \<and>
           wasm_setjmp_test env T' s' = Returns (if T' = T then L else 0) s'"
  using assms by (auto simp add: wasm_setjmp_def wasm_setjmp_test_def)

theorem mark_then_test_witness:
  "(3::uint32_t) \<noteq> 0 \<and> Addr 1 \<noteq> NULL \<and> Addr 2 \<noteq> NULL \<and>
   (\<exists>s'. wasm_setjmp (Addr 0) 3 (Addr 1) init_machine = Returns () s' \<and>
      wasm_setjmp_test (Addr 0) (Addr 1) s' = Returns 3 s') \<and>
   (\<exists>s'. wasm_setjmp (Addr 0) 3 (Addr 1) init_machine = Returns () s' \<and>
      wasm_setjmp_test (Addr 0) (Addr 2) s' = Returns 0 s')"
  using mark_then_test [where L = 3 and T = "Addr 1" and T' = "Addr 1" and env = "Addr 0"
      and s = init_machine]
    mark_then_test [where L = 3 and T = "Addr 1" and T' = "Addr 2" and env = "Addr 0"
      and s = init_machine]
  by simp

subsection \<open>The fatal traps\<close>

text \<open>
  C3. Mark traps exactly when the label is 0 or the token is null. Test traps exactly when
  the label recorded in env is 0 or the token is null. Neither of them throws. The label
  recorded in zeroed memory is 0, and the label a returning Mark leaves is not.
\<close>

theorem mark_test_trap_conditions:
  "(wasm_setjmp env lbl t s = Traps) = (lbl = 0 \<or> t = NULL) \<and>
   (wasm_setjmp_test env t s = Traps) = (label (mem s env) = 0 \<or> t = NULL) \<and>
   (\<forall>tag p s'. wasm_setjmp env lbl t s \<noteq> Throws tag p s') \<and>
   (\<forall>tag p s'. wasm_setjmp_test env t s \<noteq> Throws tag p s') \<and>
   label (mem init_machine env) = 0 \<and>
   (\<forall>s'. wasm_setjmp env lbl t s = Returns () s' \<longrightarrow> label (mem s' env) \<noteq> 0)"
  by (auto simp add: wasm_setjmp_def wasm_setjmp_test_def init_machine_def)

theorem mark_test_trap_conditions_witness:
  "wasm_setjmp (Addr 0) 0 (Addr 1) init_machine = Traps \<and>
   wasm_setjmp (Addr 0) 3 NULL init_machine = Traps \<and>
   wasm_setjmp_test (Addr 0) (Addr 1) init_machine = Traps \<and>
   (\<exists>s'. wasm_setjmp (Addr 0) 3 (Addr 1) init_machine = Returns () s' \<and>
      label (mem s' (Addr 0)) \<noteq> 0 \<and>
      wasm_setjmp_test (Addr 0) NULL s' = Traps \<and>
      wasm_setjmp_test (Addr 0) (Addr 1) s' \<noteq> Traps \<and>
      wasm_setjmp_test (Addr 0) (Addr 2) s' \<noteq> Traps)"
proof -
  let ?s' = "init_machine\<lparr>mem := (mem init_machine)(Addr 0 :=
      (mem init_machine (Addr 0))\<lparr>func_invocation_id := Addr 1, label := 3\<rparr>)\<rparr>"
  have m: "wasm_setjmp (Addr 0) 3 (Addr 1) init_machine = Returns () ?s'"
    by (simp add: wasm_setjmp_def)
  have l: "label (mem ?s' (Addr 0)) \<noteq> 0"
    using mark_test_trap_conditions [of "Addr 0" 3 "Addr 1" init_machine] m by blast
  show ?thesis
    using m l
      mark_test_trap_conditions [of "Addr 0" 0 "Addr 1" init_machine]
      mark_test_trap_conditions [of "Addr 0" 3 NULL init_machine]
      mark_test_trap_conditions [of "Addr 0" 3 NULL ?s']
      mark_test_trap_conditions [of "Addr 0" 3 "Addr 1" ?s']
      mark_test_trap_conditions [of "Addr 0" 3 "Addr 2" ?s']
    by simp
qed

subsection \<open>Marking a marked env again\<close>

text \<open>
  C7. Marking an env that is already marked is legal and the last Mark wins: after
  Mark(env, L1, T1) and Mark(env, L2, T2), with nonzero labels and distinct non-null
  tokens, Test(env, T2) returns L2 and Test(env, T1) returns 0. A Transfer on env is then
  claimed by the inner activation T2, at L2, and an activation holding T1 lets it pass.
\<close>

theorem remark_last_write_wins:
  assumes "L1 \<noteq> 0" and "L2 \<noteq> 0" and "T1 \<noteq> NULL" and "T2 \<noteq> NULL" and "T1 \<noteq> T2"
  shows "\<exists>s1 s2 s3.
     wasm_setjmp env L1 T1 s = Returns () s1 \<and>
     wasm_setjmp env L2 T2 s1 = Returns () s2 \<and>
     wasm_setjmp_test env T2 s2 = Returns L2 s2 \<and>
     wasm_setjmp_test env T1 s2 = Returns 0 s2 \<and>
     (wasm_longjmp env v s2 :: unit outcome) = Throws C_LONGJMP env s3 \<and>
     unwind [T2, T1] env s3 = Resumed T2 L2 (if v = 0 then 1 else v) s3 \<and>
     unwind [T1] env s3 = Uncaught s3"
  using assms
  by (simp add: wasm_setjmp_def wasm_setjmp_test_def wasm_longjmp_def)

theorem remark_last_write_wins_witness:
  "(3::uint32_t) \<noteq> 0 \<and> (4::uint32_t) \<noteq> 0 \<and> Addr 1 \<noteq> NULL \<and> Addr 2 \<noteq> NULL \<and> Addr 1 \<noteq> Addr 2 \<and>
   (\<exists>s1 s2 s3.
     wasm_setjmp (Addr 0) 3 (Addr 1) init_machine = Returns () s1 \<and>
     wasm_setjmp (Addr 0) 4 (Addr 2) s1 = Returns () s2 \<and>
     wasm_setjmp_test (Addr 0) (Addr 2) s2 = Returns 4 s2 \<and>
     wasm_setjmp_test (Addr 0) (Addr 1) s2 = Returns 0 s2 \<and>
     (wasm_longjmp (Addr 0) 5 s2 :: unit outcome) = Throws C_LONGJMP (Addr 0) s3 \<and>
     unwind [Addr 2, Addr 1] (Addr 0) s3 = Resumed (Addr 2) 4 5 s3 \<and>
     unwind [Addr 1] (Addr 0) s3 = Uncaught s3)"
  using remark_last_write_wins [where ?L1.0 = 3 and ?L2.0 = 4 and ?T1.0 = "Addr 1" and ?T2.0 = "Addr 2"
      and env = "Addr 0" and s = init_machine and v = 5]
  by simp

subsection \<open>Transfer\<close>

text \<open>
  C2. Transfer(env, v) throws a C\_LONGJMP exception whose payload is the arg field of
  env, after storing env and the canonical value there: 1 when v is 0, v otherwise, so
  never 0. The Mark recorded in env and all other memory stay as they were. When env was
  marked by a live activation, that activation is resumed at the recorded label with the
  canonical value.
\<close>

theorem transfer_canonical_payload:
  "\<exists>s'. (wasm_longjmp env v s :: unit outcome) = Throws C_LONGJMP env s' \<and>
      arg (mem s' env) = \<lparr>arg_env = env, arg_val = (if v = 0 then 1 else v)\<rparr> \<and>
      arg_val (arg (mem s' env)) \<noteq> 0 \<and>
      func_invocation_id (mem s' env) = func_invocation_id (mem s env) \<and>
      label (mem s' env) = label (mem s env) \<and>
      (\<forall>q. q \<noteq> env \<longrightarrow> mem s' q = mem s q) \<and>
      s' = s\<lparr>mem := mem s'\<rparr> \<and>
      (label (mem s env) \<noteq> 0 \<and> NULL \<notin> set frames \<and> func_invocation_id (mem s env) \<in> set frames \<longrightarrow>
         unwind frames env s' =
           Resumed (func_invocation_id (mem s env)) (label (mem s env)) (if v = 0 then 1 else v) s')"
proof -
  let ?s' = "s\<lparr>mem := (mem s)(env := (mem s env)\<lparr>arg := \<lparr>arg_env = env, arg_val = (if v = 0 then 1 else v)\<rparr>\<rparr>)\<rparr>"
  have t: "(wasm_longjmp env v s :: unit outcome) = Throws C_LONGJMP env ?s'"
    by (simp add: wasm_longjmp_def)
  have u: "unwind frames env ?s' =
           Resumed (func_invocation_id (mem s env)) (label (mem s env)) (if v = 0 then 1 else v) ?s'"
    if "label (mem s env) \<noteq> 0" "NULL \<notin> set frames" "func_invocation_id (mem s env) \<in> set frames"
    using that unwind_marked [of ?s' env frames] by simp
  show ?thesis
    using t u by (intro exI [of _ ?s']) simp
qed

theorem transfer_canonical_payload_witness:
  "\<exists>s1 s'. wasm_setjmp (Addr 0) 3 (Addr 1) init_machine = Returns () s1 \<and>
     label (mem s1 (Addr 0)) \<noteq> 0 \<and> NULL \<notin> set [Addr 2, Addr 1] \<and>
     func_invocation_id (mem s1 (Addr 0)) \<in> set [Addr 2, Addr 1] \<and>
     (wasm_longjmp (Addr 0) 0 s1 :: unit outcome) = Throws C_LONGJMP (Addr 0) s' \<and>
     arg (mem s' (Addr 0)) = \<lparr>arg_env = Addr 0, arg_val = 1\<rparr> \<and>
     unwind [Addr 2, Addr 1] (Addr 0) s' = Resumed (Addr 1) 3 1 s'"
proof -
  let ?s1 = "init_machine\<lparr>mem := (mem init_machine)(Addr 0 :=
      (mem init_machine (Addr 0))\<lparr>func_invocation_id := Addr 1, label := 3\<rparr>)\<rparr>"
  have m: "wasm_setjmp (Addr 0) 3 (Addr 1) init_machine = Returns () ?s1"
    by (simp add: wasm_setjmp_def)
  from transfer_canonical_payload [of "Addr 0" 0 ?s1 "[Addr 2, Addr 1]"]
  obtain s' where "(wasm_longjmp (Addr 0) 0 ?s1 :: unit outcome) = Throws C_LONGJMP (Addr 0) s'"
    and "arg (mem s' (Addr 0)) = \<lparr>arg_env = Addr 0, arg_val = 1\<rparr>"
    and "unwind [Addr 2, Addr 1] (Addr 0) s' = Resumed (Addr 1) 3 1 s'"
    by auto
  with m show ?thesis
    by (intro exI [of _ ?s1] exI [of _ s']) simp
qed

section \<open>The recovery channel\<close>

subsection \<open>What the calls of a region can do\<close>

lemmas exec_defs =
  discard_def xcalloc_def xmalloc_def xrealloc_def xstrdup_def tt_abort_def
  longjmp_def wasm_longjmp_def ttstub_diag_vprintf_def ttstub_diag_printf_def
  ttbc_set_checkpoint_callback_def ttbc_fire_checkpoint_def ttbc_get_error_message_def
  ttbc_global_engine_enter_def ttbc_global_engine_exit_def ttstub_issue_warning_def
  ttstub_issue_error_def ttstub_fprintf_def ttstub_input_get_mtime_def
  ttstub_input_seek_def ttstub_input_close_def

lemma exec_Returns_mem:
  "exec libc x s = Returns u s' \<Longrightarrow> mem s' = mem s"
  by (cases x)
    (auto simp add: exec_defs Let_def split: if_splits prod.splits)

lemma run_region_Returns_mem:
  "run_region libc xs s = Returns u s' \<Longrightarrow> mem s' = mem s"
proof (induction xs arbitrary: s)
  case Nil
  then show ?case by simp
next
  case (Cons x xs)
  then show ?case
    by (auto split: outcome.splits dest: exec_Returns_mem)
qed

lemma exec_not_Traps: "exec libc x s \<noteq> Traps"
  by (cases x)
    (auto simp add: exec_defs Let_def split: if_splits prod.splits)

lemma run_region_append:
  "run_region libc (xs @ ys) s =
     (case run_region libc xs s of Returns u s' \<Rightarrow> run_region libc ys s'
        | Throws t p s' \<Rightarrow> Throws t p s' | Traps \<Rightarrow> Traps)"
  by (induction xs arbitrary: s) (auto split: outcome.splits)

lemma tt_abort_Throws:
  "tt_abort libc format ap s =
     Throws C_LONGJMP Static_jump_buffer
       (s\<lparr>format_buf := fst (vsnprintf libc (format_buf s) BUF_SIZE format ap),
          mem := (mem s)(Static_jump_buffer := (mem s Static_jump_buffer)
                   \<lparr>arg := \<lparr>arg_env = Static_jump_buffer, arg_val = 1\<rparr>\<rparr>)\<rparr>)"
  by (simp add: tt_abort_def longjmp_def wasm_longjmp_def)

lemma enter_region_Returns:
  "enter_region lbl t s = Returns u sE \<Longrightarrow>
   lbl \<noteq> 0 \<and> t \<noteq> NULL \<and> func_invocation_id (mem sE Static_jump_buffer) = t \<and>
   label (mem sE Static_jump_buffer) = lbl"
  by (auto simp add: enter_region_def ttbc_global_engine_enter_def wasm_setjmp_def
      split: if_splits)

subsection \<open>Transfer and Abort do not return\<close>

text \<open>
  C8, as amended. Transfer and Abort never return to their caller: each ends in a throw.
  The thrown exception resumes the activation whose invocation id the env records, at
  the recorded label, when that activation is on the call stack. For Abort this is the
  activation that entered most recently, whatever calls into support.c it has made since,
  Exit among them; it is resumed with value 1. When that activation is not on the call
  stack the exception is uncaught and ends the program, also when an activation that
  entered earlier is still there; when the env was never marked, Test traps in the first
  handler. No statement behind Abort in its frame runs: the run of the frame is the run
  up to and including Abort, and is never a return.
\<close>

theorem transfer_abort_never_return:
  "(\<exists>s1. (wasm_longjmp env v s :: unit outcome) = Throws C_LONGJMP env s1 \<and>
      (label (mem s env) \<noteq> 0 \<and> NULL \<notin> set frames \<longrightarrow>
         unwind frames env s1 =
           (if func_invocation_id (mem s env) \<in> set frames
            then Resumed (func_invocation_id (mem s env)) (label (mem s env))
                   (if v = 0 then 1 else v) s1
            else Uncaught s1)) \<and>
      (label (mem s env) = 0 \<longrightarrow>
         unwind frames env s1 = (if frames = [] then Uncaught s1 else Trapped))) \<and>
   (\<exists>s1. (tt_abort libc format ap s :: int outcome) = Throws C_LONGJMP Static_jump_buffer s1 \<and>
      (\<forall>lbl t s0 sE body.
         enter_region lbl t s0 = Returns () sE \<and> run_region libc body sE = Returns () s \<and>
         NULL \<notin> set frames \<longrightarrow>
         unwind frames Static_jump_buffer s1 =
           (if t \<in> set frames then Resumed t lbl 1 s1 else Uncaught s1)) \<and>
      (label (mem s Static_jump_buffer) = 0 \<longrightarrow>
         unwind frames Static_jump_buffer s1 = (if frames = [] then Uncaught s1 else Trapped))) \<and>
   run_region libc (pre @ Abort format ap # post) s = run_region libc (pre @ [Abort format ap]) s \<and>
   (\<forall>u s'. run_region libc (pre @ Abort format ap # post) s \<noteq> Returns u s')"
proof (intro conjI)
  let ?s1 = "s\<lparr>mem := (mem s)(env := (mem s env)\<lparr>arg := \<lparr>arg_env = env, arg_val = (if v = 0 then 1 else v)\<rparr>\<rparr>)\<rparr>"
  have t: "(wasm_longjmp env v s :: unit outcome) = Throws C_LONGJMP env ?s1"
    by (simp add: wasm_longjmp_def)
  have a: "unwind frames env ?s1 =
           (if func_invocation_id (mem s env) \<in> set frames
            then Resumed (func_invocation_id (mem s env)) (label (mem s env))
                   (if v = 0 then 1 else v) ?s1
            else Uncaught ?s1)"
    if "label (mem s env) \<noteq> 0" "NULL \<notin> set frames"
    using that unwind_marked [of ?s1 env frames] by simp
  have b: "unwind frames env ?s1 = (if frames = [] then Uncaught ?s1 else Trapped)"
    if "label (mem s env) = 0"
    using that unwind_unmarked [of ?s1 env frames] by simp
  show "\<exists>s1. (wasm_longjmp env v s :: unit outcome) = Throws C_LONGJMP env s1 \<and>
      (label (mem s env) \<noteq> 0 \<and> NULL \<notin> set frames \<longrightarrow>
         unwind frames env s1 =
           (if func_invocation_id (mem s env) \<in> set frames
            then Resumed (func_invocation_id (mem s env)) (label (mem s env))
                   (if v = 0 then 1 else v) s1
            else Uncaught s1)) \<and>
      (label (mem s env) = 0 \<longrightarrow>
         unwind frames env s1 = (if frames = [] then Uncaught s1 else Trapped))"
    using t a b by (intro exI [of _ ?s1]) blast
next
  let ?s1 = "s\<lparr>format_buf := fst (vsnprintf libc (format_buf s) BUF_SIZE format ap),
          mem := (mem s)(Static_jump_buffer := (mem s Static_jump_buffer)
                   \<lparr>arg := \<lparr>arg_env = Static_jump_buffer, arg_val = 1\<rparr>\<rparr>)\<rparr>"
  have t: "(tt_abort libc format ap s :: int outcome) = Throws C_LONGJMP Static_jump_buffer ?s1"
    by (rule tt_abort_Throws)
  have a: "unwind frames Static_jump_buffer ?s1 =
           (if t \<in> set frames then Resumed t lbl 1 ?s1 else Uncaught ?s1)"
    if e: "enter_region lbl t s0 = Returns () sE" and r: "run_region libc body sE = Returns () s"
      and n: "NULL \<notin> set frames" for lbl t s0 sE body
  proof -
    have "mem s = mem sE" using r by (rule run_region_Returns_mem)
    with enter_region_Returns [OF e]
    have "label (mem s Static_jump_buffer) = lbl" "lbl \<noteq> 0"
      "func_invocation_id (mem s Static_jump_buffer) = t" by simp_all
    then show ?thesis
      using n unwind_marked [of ?s1 Static_jump_buffer frames] by simp
  qed
  have b: "unwind frames Static_jump_buffer ?s1 = (if frames = [] then Uncaught ?s1 else Trapped)"
    if "label (mem s Static_jump_buffer) = 0"
    using that unwind_unmarked [of ?s1 Static_jump_buffer frames] by simp
  show "\<exists>s1. (tt_abort libc format ap s :: int outcome) = Throws C_LONGJMP Static_jump_buffer s1 \<and>
      (\<forall>lbl t s0 sE body.
         enter_region lbl t s0 = Returns () sE \<and> run_region libc body sE = Returns () s \<and>
         NULL \<notin> set frames \<longrightarrow>
         unwind frames Static_jump_buffer s1 =
           (if t \<in> set frames then Resumed t lbl 1 s1 else Uncaught s1)) \<and>
      (label (mem s Static_jump_buffer) = 0 \<longrightarrow>
         unwind frames Static_jump_buffer s1 = (if frames = [] then Uncaught s1 else Trapped))"
    using t a b by (intro exI [of _ ?s1]) blast
next
  show "run_region libc (pre @ Abort format ap # post) s = run_region libc (pre @ [Abort format ap]) s"
    by (simp add: run_region_append tt_abort_Throws split: outcome.splits)
next
  show "\<forall>u s'. run_region libc (pre @ Abort format ap # post) s \<noteq> Returns u s'"
    by (simp add: run_region_append tt_abort_Throws split: outcome.splits)
qed

theorem transfer_abort_never_return_witness:
  "\<forall>rest.
     \<exists>sE s1 s2.
       enter_region 1 (Addr 1) init_machine = Returns () sE \<and>
       run_region (plain_libc rest) [Fire_checkpoint 1] sE = Returns () sE \<and>
       NULL \<notin> set [Addr 1] \<and>
       label (mem sE Static_jump_buffer) \<noteq> 0 \<and>
       (tt_abort (plain_libc rest) ''bad token %d'' [Int_arg 7] sE :: int outcome) =
         Throws C_LONGJMP Static_jump_buffer s1 \<and>
       unwind [Addr 1] Static_jump_buffer s1 = Resumed (Addr 1) 1 1 s1 \<and>
       unwind [] Static_jump_buffer s1 = Uncaught s1 \<and>
       run_region (plain_libc rest) ([Fire_checkpoint 1] @ Abort ''bad token %d'' [Int_arg 7] # [Warning ''after'' []]) sE =
         run_region (plain_libc rest) ([Fire_checkpoint 1] @ [Abort ''bad token %d'' [Int_arg 7]]) sE \<and>
       label (mem init_machine Static_jump_buffer) = 0 \<and>
       (wasm_longjmp Static_jump_buffer 0 init_machine :: unit outcome) =
         Throws C_LONGJMP Static_jump_buffer s2 \<and>
       unwind [Addr 1] Static_jump_buffer s2 = Trapped"
  (is "\<forall>rest. ?P rest")
proof (rule allI)
  fix rest :: formatter
  show "?P rest"
  proof -
    let ?sE = "init_machine\<lparr>mem := (mem init_machine)(Static_jump_buffer :=
        (mem init_machine Static_jump_buffer)\<lparr>func_invocation_id := Addr 1, label := 1\<rparr>)\<rparr>"
    have e: "enter_region 1 (Addr 1) init_machine = Returns () ?sE"
      by (simp add: enter_region_def ttbc_global_engine_enter_def wasm_setjmp_def)
    have r: "run_region (plain_libc rest) [Fire_checkpoint 1] ?sE = Returns () ?sE"
      by (simp add: ttbc_fire_checkpoint_def init_machine_def)
    have n: "NULL \<notin> set [Addr 1]" by simp
    have l: "label (mem ?sE Static_jump_buffer) \<noteq> 0" by simp
    have z: "label (mem init_machine Static_jump_buffer) = 0" by (simp add: init_machine_def)
    note A = transfer_abort_never_return [where libc = "plain_libc rest" and s = ?sE and format = "''bad token %d''"
        and ap = "[Int_arg 7]" and frames = "[Addr 1]" and pre = "[Fire_checkpoint 1]"
        and post = "[Warning ''after'' []]" and env = Static_jump_buffer and v = 0]
    note B = transfer_abort_never_return [where libc = "plain_libc rest" and s = init_machine and format = "''''"
        and ap = "[]" and frames = "[Addr 1]" and pre = "[]"
        and post = "[]" and env = Static_jump_buffer and v = 0]
    from A [THEN conjunct2, THEN conjunct1] obtain s1 where
      a1: "(tt_abort (plain_libc rest) ''bad token %d'' [Int_arg 7] ?sE :: int outcome) =
         Throws C_LONGJMP Static_jump_buffer s1"
      and aE: "\<forall>lbl t s0 sE body.
           enter_region lbl t s0 = Returns () sE \<and> run_region (plain_libc rest) body sE = Returns () ?sE \<and>
           NULL \<notin> set [Addr 1] \<longrightarrow>
           unwind [Addr 1] Static_jump_buffer s1 =
             (if t \<in> set [Addr 1] then Resumed t lbl 1 s1 else Uncaught s1)"
      by blast
    from aE e r n have "unwind [Addr 1] Static_jump_buffer s1 =
             (if Addr 1 \<in> set [Addr 1] then Resumed (Addr 1) 1 1 s1 else Uncaught s1)"
      by blast
    then have a2: "unwind [Addr 1] Static_jump_buffer s1 = Resumed (Addr 1) 1 1 s1"
      by simp
    have a3: "unwind [] Static_jump_buffer s1 = Uncaught s1"
      by simp
    from A [THEN conjunct2, THEN conjunct2, THEN conjunct1] have a4:
      "run_region (plain_libc rest) ([Fire_checkpoint 1] @ Abort ''bad token %d'' [Int_arg 7] # [Warning ''after'' []]) ?sE =
         run_region (plain_libc rest) ([Fire_checkpoint 1] @ [Abort ''bad token %d'' [Int_arg 7]]) ?sE" .
    from B [THEN conjunct1] obtain s2 where
      b1: "(wasm_longjmp Static_jump_buffer 0 init_machine :: unit outcome) =
         Throws C_LONGJMP Static_jump_buffer s2"
      and bE: "label (mem init_machine Static_jump_buffer) = 0 \<longrightarrow>
           unwind [Addr 1] Static_jump_buffer s2 = (if [Addr 1] = [] then Uncaught s2 else Trapped)"
      by blast
    from bE z have b2: "unwind [Addr 1] Static_jump_buffer s2 = Trapped"
      by simp
    show ?thesis
      by (intro exI [of _ ?sE] exI [of _ s1] exI [of _ s2] conjI)
        (fact e r n l z a1 a2 a3 a4 b1 b2)+
  qed
qed

text \<open>
  C8, as stated, fails on which Enter site is resumed. An Abort behind Exit, in the
  activation that entered, resumes the Enter site that Exit has left. And when an inner
  activation has entered, called Exit and returned, an Abort in the outer activation,
  which has entered and not called Exit, is uncaught: the outer site is not resumed.
\<close>

theorem abort_ignores_exit_and_outer_site:
  "\<forall>rest.
     (case enter_region 1 (Addr 1) init_machine of
        Returns u sE \<Rightarrow>
          (case run_region (plain_libc rest) [Global_engine_exit] sE of
             Returns u' s \<Rightarrow>
               (case (tt_abort (plain_libc rest) ''fatal'' [] s :: int outcome) of
                  Throws t p s1 \<Rightarrow> unwind [Addr 1] p s1 = Resumed (Addr 1) 1 1 s1
                | Returns r s1 \<Rightarrow> False
                | Traps \<Rightarrow> False)
           | Throws t p s \<Rightarrow> False
           | Traps \<Rightarrow> False)
      | Throws t p sE \<Rightarrow> False
      | Traps \<Rightarrow> False) \<and>
     (case enter_region 1 (Addr 1) init_machine of
        Returns u sA \<Rightarrow>
          (case enter_region 2 (Addr 2) sA of
             Returns u' sB \<Rightarrow>
               (case run_region (plain_libc rest) [Global_engine_exit] sB of
                  Returns u'' s \<Rightarrow>
                    (case (tt_abort (plain_libc rest) ''fatal'' [] s :: int outcome) of
                       Throws t p s1 \<Rightarrow> unwind [Addr 1] p s1 = Uncaught s1
                     | Returns r s1 \<Rightarrow> False
                     | Traps \<Rightarrow> False)
                | Throws t p s \<Rightarrow> False
                | Traps \<Rightarrow> False)
           | Throws t p sB \<Rightarrow> False
           | Traps \<Rightarrow> False)
      | Throws t p sA \<Rightarrow> False
      | Traps \<Rightarrow> False)"
  by (simp add: enter_region_def ttbc_global_engine_enter_def ttbc_global_engine_exit_def
      wasm_setjmp_def wasm_setjmp_test_def tt_abort_Throws)

subsection \<open>The error message of Abort\<close>

lemma c_str_append_NUL: "c_str (xs @ NUL # ys) = c_str xs"
  by (induction xs) (simp_all add: c_str_def)

lemma c_str_no_NUL: "NUL \<notin> set xs \<Longrightarrow> c_str xs = xs"
  by (induction xs) (auto simp add: c_str_def)

lemma length_c_str_le: "length (c_str xs) \<le> length xs"
  by (simp add: c_str_def length_takeWhile_le)

lemma vsnprintf_fst:
  "0 < n \<Longrightarrow> fst (vsnprintf libc buf n format ap) =
     take (n - 1) (written (libc format ap)) @ NUL #
       drop (min (length (written (libc format ap))) (n - 1) + 1) buf"
  by (simp add: vsnprintf_def Let_def min_def)

lemma length_vsnprintf:
  "0 < n \<Longrightarrow> length buf = n \<Longrightarrow> length (fst (vsnprintf libc buf n format ap)) = n"
  by (simp add: vsnprintf_fst min_def)

lemma c_str_vsnprintf:
  "0 < n \<Longrightarrow> c_str (fst (vsnprintf libc buf n format ap)) =
     c_str (take (n - 1) (written (libc format ap)))"
  by (simp add: vsnprintf_fst c_str_append_NUL)

lemma nth_length_c_str: "(xs @ NUL # ys) ! length (c_str (xs @ NUL # ys)) = NUL"
  by (induction xs) (simp_all add: c_str_def)

lemma nth_c_str_vsnprintf:
  "0 < n \<Longrightarrow>
   fst (vsnprintf libc buf n format ap) ! length (c_str (fst (vsnprintf libc buf n format ap))) = NUL"
  by (simp only: vsnprintf_fst nth_length_c_str)

text \<open>
  C4. Whatever the C library makes of the format and its arguments, Abort writes it into
  \<open>format_buf\<close>, which keeps its 1024 bytes, and throws. GetLastErrorMessage then gives
  a buffer whose C string is what the library produced, cut to 1023 bytes: it has at most
  1023 bytes and a NUL behind it, and it is the complete formatted text when that has at
  most 1023 bytes, none of them NUL.
\<close>

theorem abort_message:
  assumes "length (format_buf s) = BUF_SIZE"
  shows "\<exists>s' msg.
     (tt_abort libc format ap s :: int outcome) = Throws C_LONGJMP Static_jump_buffer s' \<and>
     ttbc_get_error_message s' = Returns msg s' \<and>
     length msg = BUF_SIZE \<and>
     length (c_str msg) \<le> 1023 \<and>
     msg ! length (c_str msg) = NUL \<and>
     c_str msg = c_str (take 1023 (written (libc format ap))) \<and>
     (\<forall>text. libc format ap = Complete text \<and> length text \<le> 1023 \<and> NUL \<notin> set text \<longrightarrow>
        c_str msg = text)"
proof -
  let ?msg = "fst (vsnprintf libc (format_buf s) BUF_SIZE format ap)"
  let ?s' = "s\<lparr>format_buf := ?msg,
          mem := (mem s)(Static_jump_buffer := (mem s Static_jump_buffer)
                   \<lparr>arg := \<lparr>arg_env = Static_jump_buffer, arg_val = 1\<rparr>\<rparr>)\<rparr>"
  have pos: "0 < BUF_SIZE" by (simp add: BUF_SIZE_def)
  have t: "(tt_abort libc format ap s :: int outcome) = Throws C_LONGJMP Static_jump_buffer ?s'"
    by (rule tt_abort_Throws)
  have g: "ttbc_get_error_message ?s' = Returns ?msg ?s'"
    by (simp add: ttbc_get_error_message_def)
  have len: "length ?msg = BUF_SIZE"
    using pos assms by (rule length_vsnprintf)
  have c: "c_str ?msg = c_str (take 1023 (written (libc format ap)))"
    using c_str_vsnprintf [OF pos] by (simp add: BUF_SIZE_def)
  have le: "length (c_str ?msg) \<le> 1023"
    using length_c_str_le [of "take 1023 (written (libc format ap))"] by (simp add: c)
  have nul: "?msg ! length (c_str ?msg) = NUL"
    using pos by (rule nth_c_str_vsnprintf)
  have fit: "c_str ?msg = out"
    if "libc format ap = Complete out" "length out \<le> 1023" "NUL \<notin> set out" for out
    using that by (simp add: c c_str_no_NUL written_def)
  show ?thesis
    using t g len le nul c fit by (intro exI [of _ ?s'] exI [of _ ?msg]) blast
qed

lemma plain_text_plain:
  "c \<noteq> NUL \<Longrightarrow> c \<noteq> CHR ''%'' \<Longrightarrow> plain_text Plain (replicate n c) ap = Some (replicate n c)"
  by (induction n) simp_all

theorem abort_message_witness:
  "\<forall>rest.
     length (format_buf init_machine) = BUF_SIZE \<and>
     plain_libc rest ''bad token %d'' [Int_arg 7] = Complete ''bad token 7'' \<and>
     length ''bad token 7'' \<le> 1023 \<and>
     NUL \<notin> set ''bad token 7'' \<and>
     (\<exists>s' msg.
       (tt_abort (plain_libc rest) ''bad token %d'' [Int_arg 7] init_machine :: int outcome) =
         Throws C_LONGJMP Static_jump_buffer s' \<and>
       ttbc_get_error_message s' = Returns msg s' \<and>
       c_str msg = ''bad token 7'') \<and>
     plain_libc rest (replicate 2000 CHR ''a'') [] = Complete (replicate 2000 CHR ''a'') \<and>
     (\<exists>s' msg.
       (tt_abort (plain_libc rest) (replicate 2000 CHR ''a'') [] init_machine :: int outcome) =
         Throws C_LONGJMP Static_jump_buffer s' \<and>
       ttbc_get_error_message s' = Returns msg s' \<and>
       length msg = BUF_SIZE \<and>
       c_str msg = replicate 1023 CHR ''a'')"
  (is "\<forall>rest. ?P rest")
proof (rule allI)
  fix rest :: formatter
  have i: "length (format_buf init_machine) = BUF_SIZE"
    by (simp add: init_machine_def)
  have p: "plain_libc rest ''bad token %d'' [Int_arg 7] = Complete ''bad token 7''"
    by (simp add: plain_libc_def integer_directive_def dec_int_def dec.simps digit_def NUL_def)
  have q: "plain_libc rest (replicate 2000 CHR ''a'') [] = Complete (replicate 2000 CHR ''a'')"
    by (simp add: plain_libc_def plain_text_plain NUL_def)
  have l: "length ''bad token 7'' \<le> 1023"
    by simp
  have n: "NUL \<notin> set ''bad token 7''"
    by (simp add: NUL_def)
  have n': "NUL \<notin> set (replicate 1023 CHR ''a'')"
    by (simp add: NUL_def)
  from abort_message [OF i, of "plain_libc rest" "''bad token %d''" "[Int_arg 7]"]
  obtain s' msg where
    a1: "(tt_abort (plain_libc rest) ''bad token %d'' [Int_arg 7] init_machine :: int outcome) =
         Throws C_LONGJMP Static_jump_buffer s'"
    and a2: "ttbc_get_error_message s' = Returns msg s'"
    and a3: "\<forall>text. plain_libc rest ''bad token %d'' [Int_arg 7] = Complete text \<and>
          length text \<le> 1023 \<and> NUL \<notin> set text \<longrightarrow> c_str msg = text"
    by blast
  from a3 p l n have "c_str msg = ''bad token 7''"
    by blast
  with a1 a2 have a: "\<exists>s' msg.
       (tt_abort (plain_libc rest) ''bad token %d'' [Int_arg 7] init_machine :: int outcome) =
         Throws C_LONGJMP Static_jump_buffer s' \<and>
       ttbc_get_error_message s' = Returns msg s' \<and>
       c_str msg = ''bad token 7''"
    by blast
  from abort_message [OF i, of "plain_libc rest" "replicate 2000 CHR ''a''" "[]"]
  obtain s'' msg' where
    b1: "(tt_abort (plain_libc rest) (replicate 2000 CHR ''a'') [] init_machine :: int outcome) =
         Throws C_LONGJMP Static_jump_buffer s''"
    and b2: "ttbc_get_error_message s'' = Returns msg' s''"
    and b3: "length msg' = BUF_SIZE"
    and b4: "c_str msg' = c_str (take 1023 (written (plain_libc rest (replicate 2000 CHR ''a'') [])))"
    by blast
  from b4 have "c_str msg' = replicate 1023 CHR ''a''"
    by (simp add: q written_def c_str_no_NUL [OF n'])
  with b1 b2 b3 have b: "\<exists>s' msg.
       (tt_abort (plain_libc rest) (replicate 2000 CHR ''a'') [] init_machine :: int outcome) =
         Throws C_LONGJMP Static_jump_buffer s' \<and>
       ttbc_get_error_message s' = Returns msg s' \<and>
       length msg = BUF_SIZE \<and>
       c_str msg = replicate 1023 CHR ''a''"
    by blast
  show "?P rest"
    by (intro conjI) (fact i p l n a q b)+
qed

subsection \<open>Regions that complete\<close>

lemma exec_Returns_format_buf:
  "exec libc x s = Returns u s' \<Longrightarrow> \<not> formats x \<Longrightarrow> format_buf s' = format_buf s"
  by (cases x) (auto simp add: exec_defs Let_def split: if_splits prod.splits)

text \<open>
  C5, as amended. A region that completes, and calls none of Abort,
  \<^verbatim>\<open>ttstub_issue_warning\<close>, \<^verbatim>\<open>ttstub_issue_error\<close>, \<^verbatim>\<open>ttstub_diag_printf\<close> and
  \<^verbatim>\<open>ttstub_diag_vprintf\<close>, leaves what GetLastErrorMessage returns as it was before the
  region, and jump\_buffer too; nothing is thrown, so no handler of an Enter site runs.
\<close>

theorem quiet_region_keeps_message:
  assumes "run_region libc body s = Returns u s'" and "\<forall>x \<in> set body. \<not> formats x"
  shows "format_buf s' = format_buf s \<and>
         ttbc_get_error_message s' = Returns (format_buf s) s' \<and>
         mem s' = mem s \<and>
         (\<forall>t p s''. run_region libc body s \<noteq> Throws t p s'') \<and> run_region libc body s \<noteq> Traps"
proof -
  have "format_buf s' = format_buf s"
    using assms
  proof (induction body arbitrary: s)
    case Nil
    then show ?case by simp
  next
    case (Cons x xs)
    then show ?case
      by (auto split: outcome.splits dest: exec_Returns_format_buf)
  qed
  moreover have "mem s' = mem s"
    using assms(1) by (rule run_region_Returns_mem)
  ultimately show ?thesis
    using assms(1) by (simp add: ttbc_get_error_message_def)
qed

theorem quiet_region_keeps_message_witness:
  "\<forall>rest.
     run_region (plain_libc rest) [Fire_checkpoint 1, Input_close 0 (Addr 7), Global_engine_exit] init_machine =
       Returns () init_machine \<and>
     \<not> formats (Fire_checkpoint 1) \<and> \<not> formats (Input_close 0 (Addr 7)) \<and>
     \<not> formats Global_engine_exit \<and>
     ttbc_get_error_message init_machine = Returns (format_buf init_machine) init_machine"
  (is "\<forall>rest. ?P rest")
proof (rule allI)
  fix rest :: formatter
  show "?P rest"
  proof -
    have r: "run_region (plain_libc rest) [Fire_checkpoint 1, Input_close 0 (Addr 7), Global_engine_exit] init_machine =
       Returns () init_machine"
      by (simp add: exec_defs init_machine_def)
    have f: "\<forall>x \<in> set [Fire_checkpoint 1, Input_close 0 (Addr 7), Global_engine_exit]. \<not> formats x"
      by simp
    from quiet_region_keeps_message [OF r f] r f show ?thesis
      by simp
  qed
qed

text \<open>
  C5, as stated, fails: a region that calls \<^verbatim>\<open>ttstub_issue_warning("w")\<close> and then Exit
  completes without Abort, and GetLastErrorMessage, empty before the region, is \<open>w\<close>
  after it.
\<close>

theorem warning_overwrites_message:
  "\<forall>rest.
     \<not> aborts (Warning ''w'' []) \<and>
     (case enter_region 1 (Addr 1) init_machine of
        Returns u s \<Rightarrow>
          (case run_region (plain_libc rest) [Warning ''w'' [], Global_engine_exit] s of
             Returns u' s' \<Rightarrow>
               c_str (format_buf s) = [] \<and> c_str (format_buf s') = ''w'' \<and>
               ttbc_get_error_message s = Returns (format_buf s) s \<and>
               ttbc_get_error_message s' = Returns (format_buf s') s'
           | Throws t p s' \<Rightarrow> False
           | Traps \<Rightarrow> False)
      | Throws t p s \<Rightarrow> False
      | Traps \<Rightarrow> False)"
  (is "\<forall>rest. ?P rest")
proof (rule allI)
  fix rest :: formatter
  show "?P rest"
    by (simp add: enter_region_def wasm_setjmp_def exec_defs vsnprintf_def init_machine_def
        BUF_SIZE_def c_str_def NUL_def plain_libc_def written_def)
qed

subsection \<open>Which calls divert\<close>

text \<open>
  C6, as amended. No call into support.c traps. A call throws to jump\_buffer exactly
  when it reaches \<^verbatim>\<open>_tt_abort\<close> (Abort itself, or an allocator whose allocation failed)
  or when it is \<^verbatim>\<open>ttstub_input_seek\<close> with an internal error reported, or
  \<^verbatim>\<open>ttstub_input_close\<close> with a nonzero result of the bridge; every other call returns.
  The two input wrappers call \<^verbatim>\<open>longjmp(jump_buffer, 1)\<close> themselves and leave
  \<open>format_buf\<close> as it was; Abort throws with the freshly formatted message.
\<close>

theorem diverting_operations:
  "exec libc x s \<noteq> Traps \<and>
   (\<exists>t p s'. exec libc x s = Throws t p s') = (aborts x \<or> jumps_directly x) \<and>
   (\<exists>s'. exec libc x s = Returns () s') = (\<not> aborts x \<and> \<not> jumps_directly x) \<and>
   (aborts x \<longrightarrow> (\<exists>format ap. exec libc x s = tt_abort libc format ap s)) \<and>
   (jumps_directly x \<longrightarrow>
      exec libc x s = longjmp Static_jump_buffer 1 s \<and>
      (\<exists>s'. exec libc x s = Throws C_LONGJMP Static_jump_buffer s' \<and> format_buf s' = format_buf s \<and>
         arg (mem s' Static_jump_buffer) = \<lparr>arg_env = Static_jump_buffer, arg_val = 1\<rparr>)) \<and>
   (\<forall>format ap. \<exists>s'. exec libc (Abort format ap) s = Throws C_LONGJMP Static_jump_buffer s' \<and>
      format_buf s' = fst (vsnprintf libc (format_buf s) BUF_SIZE format ap) \<and>
      arg (mem s' Static_jump_buffer) = \<lparr>arg_env = Static_jump_buffer, arg_val = 1\<rparr>)"
proof (intro conjI)
  show "exec libc x s \<noteq> Traps" by (rule exec_not_Traps)
  show "(\<exists>t p s'. exec libc x s = Throws t p s') = (aborts x \<or> jumps_directly x)"
    by (cases x) (auto simp add: exec_defs Let_def split: prod.splits)
  show "(\<exists>s'. exec libc x s = Returns () s') = (\<not> aborts x \<and> \<not> jumps_directly x)"
    by (cases x) (auto simp add: exec_defs Let_def split: prod.splits)
  show "aborts x \<longrightarrow> (\<exists>format ap. exec libc x s = tt_abort libc format ap s)"
    by (cases x)
      (auto simp add: discard_def xcalloc_def xmalloc_def xrealloc_def xstrdup_def
        tt_abort_Throws)
  show "jumps_directly x \<longrightarrow>
      exec libc x s = longjmp Static_jump_buffer 1 s \<and>
      (\<exists>s'. exec libc x s = Throws C_LONGJMP Static_jump_buffer s' \<and> format_buf s' = format_buf s \<and>
         arg (mem s' Static_jump_buffer) = \<lparr>arg_env = Static_jump_buffer, arg_val = 1\<rparr>)"
    by (cases x) (auto simp add: exec_defs Let_def split: prod.splits)
  show "\<forall>format ap. \<exists>s'. exec libc (Abort format ap) s = Throws C_LONGJMP Static_jump_buffer s' \<and>
      format_buf s' = fst (vsnprintf libc (format_buf s) BUF_SIZE format ap) \<and>
      arg (mem s' Static_jump_buffer) = \<lparr>arg_env = Static_jump_buffer, arg_val = 1\<rparr>"
    by (simp add: tt_abort_Throws)
qed

theorem diverting_operations_witness:
  "\<forall>rest.
     aborts (Xmalloc NULL 8) \<and>
     exec (plain_libc rest) (Xmalloc NULL 8) init_machine =
       tt_abort (plain_libc rest) ''xmalloc request for %lu bytes failed'' [Nat_arg 8] init_machine \<and>
     jumps_directly (Input_seek (0, 1) (Addr 7) 0 0) \<and>
     (\<exists>s'. exec (plain_libc rest) (Input_seek (0, 1) (Addr 7) 0 0) init_machine =
        Throws C_LONGJMP Static_jump_buffer s' \<and> format_buf s' = format_buf init_machine) \<and>
     \<not> aborts (Input_seek (5, 0) (Addr 7) 0 0) \<and> \<not> jumps_directly (Input_seek (5, 0) (Addr 7) 0 0) \<and>
     (\<exists>s'. exec (plain_libc rest) (Input_seek (5, 0) (Addr 7) 0 0) init_machine = Returns () s')"
  (is "\<forall>rest. ?P rest")
proof (rule allI)
  fix rest :: formatter
  show "?P rest"
  proof -
    note A = diverting_operations [where libc = "plain_libc rest" and x = "Xmalloc NULL 8" and s = init_machine]
    note B = diverting_operations [where libc = "plain_libc rest" and x = "Input_seek (0, 1) (Addr 7) 0 0" and s = init_machine]
    note C = diverting_operations [where libc = "plain_libc rest" and x = "Input_seek (5, 0) (Addr 7) 0 0" and s = init_machine]
    have a: "aborts (Xmalloc NULL 8)" by simp
    have b: "jumps_directly (Input_seek (0, 1) (Addr 7) 0 0)" by simp
    have c: "\<not> aborts (Input_seek (5, 0) (Addr 7) 0 0) \<and> \<not> jumps_directly (Input_seek (5, 0) (Addr 7) 0 0)"
      by simp
    have a': "exec (plain_libc rest) (Xmalloc NULL 8) init_machine =
       tt_abort (plain_libc rest) ''xmalloc request for %lu bytes failed'' [Nat_arg 8] init_machine"
      by (simp add: discard_def xmalloc_def tt_abort_Throws)
    from B b have b': "\<exists>s'. exec (plain_libc rest) (Input_seek (0, 1) (Addr 7) 0 0) init_machine =
        Throws C_LONGJMP Static_jump_buffer s' \<and> format_buf s' = format_buf init_machine"
      by blast
    from C c have c': "\<exists>s'. exec (plain_libc rest) (Input_seek (5, 0) (Addr 7) 0 0) init_machine = Returns () s'"
      by blast
    from A a have "\<exists>format ap. exec (plain_libc rest) (Xmalloc NULL 8) init_machine = tt_abort (plain_libc rest) format ap init_machine"
      by blast
    with a a' b b' c c' show ?thesis by blast
  qed
qed

text \<open>
  C6, as stated, fails: inside an entered region \<^verbatim>\<open>ttstub_input_close\<close>, which is not
  Abort and does not call it, diverts to the Enter site with value 1 when the bridge
  reports a failure, and the message buffer is still the empty one of before.
\<close>

theorem input_close_diverts_without_message:
  "\<forall>rest.
     \<not> aborts (Input_close 1 (Addr 7)) \<and>
     (case enter_region 1 (Addr 1) init_machine of
        Returns u s \<Rightarrow>
          (case run_region (plain_libc rest) [Input_close 1 (Addr 7)] s of
             Throws t p s' \<Rightarrow>
               unwind [Addr 1] p s' = Resumed (Addr 1) 1 1 s' \<and>
               format_buf s' = format_buf init_machine \<and>
               c_str (format_buf s') = []
           | Returns u' s' \<Rightarrow> False
           | Traps \<Rightarrow> False)
      | Throws t p s \<Rightarrow> False
      | Traps \<Rightarrow> False)"
  (is "\<forall>rest. ?P rest")
proof (rule allI)
  fix rest :: formatter
  show "?P rest"
    by (simp add: enter_region_def wasm_setjmp_def wasm_setjmp_test_def exec_defs
        init_machine_def c_str_def C_LONGJMP_def)
qed

subsection \<open>Checkpoints\<close>

text \<open>
  C9. FireCheckpoint with no callback registered changes nothing and calls nothing. After
  a nonempty sequence of RegisterCheckpoint calls the slot holds the last registered
  function and userdata and nothing else has changed; FireCheckpoint(id) then makes
  exactly one call, of that function with that userdata and id (none when the function
  registered last is null).
\<close>

theorem checkpoint_slot:
  "ttbc_fire_checkpoint cid init_machine = Returns () init_machine \<and>
   (tectonic_checkpoint_fn s = NULL \<longrightarrow> ttbc_fire_checkpoint cid s = Returns () s) \<and>
   (regs \<noteq> [] \<longrightarrow>
      (\<exists>s1. run_region libc (map (\<lambda>(fn, userdata). Set_checkpoint_callback fn userdata) regs) s =
              Returns () s1 \<and>
         s1 = s\<lparr>tectonic_checkpoint_fn := fst (last regs),
                tectonic_checkpoint_userdata := snd (last regs)\<rparr> \<and>
         ttbc_fire_checkpoint cid s1 =
           Returns ()
             (if fst (last regs) = NULL then s1
              else s1\<lparr>trace := trace s @ [Checkpoint_call (fst (last regs)) (snd (last regs)) cid]\<rparr>)))"
proof (intro conjI impI)
  show "ttbc_fire_checkpoint cid init_machine = Returns () init_machine"
    by (simp add: ttbc_fire_checkpoint_def init_machine_def)
  show "ttbc_fire_checkpoint cid s = Returns () s" if "tectonic_checkpoint_fn s = NULL"
    using that by (simp add: ttbc_fire_checkpoint_def)
  have r: "run_region libc (map (\<lambda>(fn, userdata). Set_checkpoint_callback fn userdata) regs) s =
      Returns () (s\<lparr>tectonic_checkpoint_fn := fst (last regs),
                tectonic_checkpoint_userdata := snd (last regs)\<rparr>)"
    if "regs \<noteq> []" for regs s
    using that
  proof (induction regs arbitrary: s)
    case Nil
    then show ?case by simp
  next
    case (Cons a regs)
    show ?case
    proof (cases "regs = []")
      case True
      then show ?thesis
        by (simp add: ttbc_set_checkpoint_callback_def split: prod.splits)
    next
      case False
      with Cons.IH [OF False] show ?thesis
        by (simp add: ttbc_set_checkpoint_callback_def split: prod.splits)
    qed
  qed
  show "\<exists>s1. run_region libc (map (\<lambda>(fn, userdata). Set_checkpoint_callback fn userdata) regs) s =
              Returns () s1 \<and>
         s1 = s\<lparr>tectonic_checkpoint_fn := fst (last regs),
                tectonic_checkpoint_userdata := snd (last regs)\<rparr> \<and>
         ttbc_fire_checkpoint cid s1 =
           Returns ()
             (if fst (last regs) = NULL then s1
              else s1\<lparr>trace := trace s @ [Checkpoint_call (fst (last regs)) (snd (last regs)) cid]\<rparr>)"
    if "regs \<noteq> []"
    using r [OF that] by (simp add: ttbc_fire_checkpoint_def)
qed

theorem checkpoint_slot_witness:
  "\<forall>rest.
     tectonic_checkpoint_fn init_machine = NULL \<and>
     [(Addr 10, Addr 11), (Addr 20, Addr 21)] \<noteq> [] \<and>
     ttbc_fire_checkpoint 1 init_machine = Returns () init_machine \<and>
     (\<exists>s1. run_region (plain_libc rest) [Set_checkpoint_callback (Addr 10) (Addr 11),
                        Set_checkpoint_callback (Addr 20) (Addr 21)] init_machine = Returns () s1 \<and>
        ttbc_fire_checkpoint 1 s1 =
          Returns () (s1\<lparr>trace := [Checkpoint_call (Addr 20) (Addr 21) 1]\<rparr>))"
  (is "\<forall>rest. ?P rest")
proof (rule allI)
  fix rest :: formatter
  show "?P rest"
  proof -
    have n: "tectonic_checkpoint_fn init_machine = NULL" and t: "trace init_machine = []"
      by (simp_all add: init_machine_def)
    have r: "[(Addr 10, Addr 11), (Addr 20, Addr 21)] \<noteq> []" by simp
    note A = checkpoint_slot [where libc = "plain_libc rest" and cid = 1 and s = init_machine
        and regs = "[(Addr 10, Addr 11), (Addr 20, Addr 21)]"]
    from A n have a: "ttbc_fire_checkpoint 1 init_machine = Returns () init_machine"
      by blast
    from A r have "\<exists>s1. run_region (plain_libc rest) (map (\<lambda>(fn, userdata). Set_checkpoint_callback fn userdata)
            [(Addr 10, Addr 11), (Addr 20, Addr 21)]) init_machine = Returns () s1 \<and>
        s1 = init_machine\<lparr>tectonic_checkpoint_fn := fst (last [(Addr 10, Addr 11), (Addr 20, Addr 21)]),
               tectonic_checkpoint_userdata := snd (last [(Addr 10, Addr 11), (Addr 20, Addr 21)])\<rparr> \<and>
        ttbc_fire_checkpoint 1 s1 =
          Returns ()
            (if fst (last [(Addr 10, Addr 11), (Addr 20, Addr 21)]) = NULL then s1
             else s1\<lparr>trace := trace init_machine @
               [Checkpoint_call (fst (last [(Addr 10, Addr 11), (Addr 20, Addr 21)]))
                 (snd (last [(Addr 10, Addr 11), (Addr 20, Addr 21)])) 1]\<rparr>)"
      by blast
    then have b: "\<exists>s1. run_region (plain_libc rest) [Set_checkpoint_callback (Addr 10) (Addr 11),
                        Set_checkpoint_callback (Addr 20) (Addr 21)] init_machine = Returns () s1 \<and>
        ttbc_fire_checkpoint 1 s1 =
          Returns () (s1\<lparr>trace := [Checkpoint_call (Addr 20) (Addr 21) 1]\<rparr>)"
      by (simp add: t)
    from n r a b show ?thesis by blast
  qed
qed

subsection \<open>Enter and Exit\<close>

text \<open>
  C10. In every state Enter returns the address of the one static jump\_buffer and leaves
  the state as it is, and Exit changes nothing: not after any number of Exit calls, nor
  after any sequence of Enter and Exit calls.
\<close>

theorem enter_exit_inert:
  "ttbc_global_engine_enter s = Returns Static_jump_buffer s \<and>
   ttbc_global_engine_exit s = Returns () s \<and>
   run_region libc (replicate n Global_engine_exit) s = Returns () s \<and>
   run_region libc (map (\<lambda>b. if b then Global_engine_enter else Global_engine_exit) bs) s =
     Returns () s"
proof -
  have "run_region libc (replicate n Global_engine_exit) s = Returns () s"
    by (induction n) (simp_all add: ttbc_global_engine_exit_def)
  moreover have "run_region libc (map (\<lambda>b. if b then Global_engine_enter else Global_engine_exit) bs) s =
     Returns () s"
    by (induction bs)
      (simp_all add: ttbc_global_engine_exit_def ttbc_global_engine_enter_def discard_def)
  ultimately show ?thesis
    by (simp add: ttbc_global_engine_exit_def ttbc_global_engine_enter_def)
qed

theorem enter_exit_inert_witness:
  "\<forall>rest.
     ttbc_global_engine_enter init_machine = Returns Static_jump_buffer init_machine \<and>
     ttbc_global_engine_exit init_machine = Returns () init_machine \<and>
     run_region (plain_libc rest) [Global_engine_exit, Global_engine_exit, Global_engine_exit] init_machine =
       Returns () init_machine \<and>
     run_region (plain_libc rest) [Global_engine_enter, Global_engine_exit, Global_engine_exit, Global_engine_enter]
       init_machine = Returns () init_machine"
  (is "\<forall>rest. ?P rest")
proof (rule allI)
  fix rest :: formatter
  show "?P rest"
  proof -
    have a: "replicate 3 Global_engine_exit =
        [Global_engine_exit, Global_engine_exit, Global_engine_exit]"
      by (simp add: numeral_3_eq_3)
    have b: "map (\<lambda>b. if b then Global_engine_enter else Global_engine_exit)
          [True, False, False, True] =
        [Global_engine_enter, Global_engine_exit, Global_engine_exit, Global_engine_enter]"
      by simp
    show ?thesis
      using enter_exit_inert [where libc = "plain_libc rest" and s = init_machine and n = 3
          and bs = "[True, False, False, True]"]
      unfolding a b .
  qed
qed

end
